theory Spec2Isabelle
  imports Complex_Main "HOL-Library.Word"
begin

section \<open>Data model of the colour core\<close>

text \<open>
  Modelled from the spec: the declaration of the enum \<open>Space::Type\<close> is not among the
  sources; the tags are the ones the spec lists (the sources name \<open>Type::CMYK\<close> and
  construct one built-in space per tag in \<open>Manager::Manager\<close>).
\<close>

datatype Type = RGB | CMYK | Gray | HSL | HSLuv | HSV | Lab | Lch | LinearRGB | Luv
  | OkHsl | OkLab | OkLch | XYZ | NamedColor | CMS

text \<open>
  Modelled from the spec: the declaration of the enum \<open>RenderingIntent\<close> is not among
  the sources. \<open>AnySpace::profileToProfile\<close> names \<open>UNKNOWN\<close> and \<open>PERCEPTUAL\<close>, the
  spec's glossary names Relative Colorimetric; the remaining intents are kept apart by
  a number.
\<close>

datatype RenderingIntent = UNKNOWN | PERCEPTUAL | RELATIVE_COLORIMETRIC | OTHER_INTENT nat

text \<open>
  \<open>CMS::Profile\<close> is an external collaborator. The sources read its checksum
  (\<open>getChecksum\<close>, the transform cache key) and its id (\<open>getId\<close>, the gamut checker
  cache key) and compare two profiles with \<open>operator==\<close>.
\<close>

record Profile =
  getChecksum :: string
  getId :: string

text \<open>
  \<open>CMS::Transform\<close> is an external collaborator: \<open>do_transform\<close> rewrites the value
  vector it is given by reference and returns a flag, \<open>check_gamut\<close> reads a vector and
  returns a flag.
\<close>

record Transform =
  do_transform :: "real list \<Rightarrow> bool \<times> real list"
  check_gamut :: "real list \<Rightarrow> bool"

text \<open>
  The colour management library as the code sees it: the equality of profiles, the table
  \<open>intentIds\<close> and the two transform factories. A null \<open>shared_ptr\<close> is \<open>None\<close>.
\<close>

record CMS_library =
  profile_eq :: "Profile \<Rightarrow> Profile \<Rightarrow> bool"
  intentIds :: "RenderingIntent \<Rightarrow> string"
  create_for_cms :: "Profile \<Rightarrow> Profile \<Rightarrow> RenderingIntent \<Rightarrow> Transform option"
  create_for_cms_checker :: "Profile \<Rightarrow> Profile \<Rightarrow> Transform option"

text \<open>
  An instance of (a subclass of) \<open>AnySpace\<close>. The virtual member functions are fields;
  \<open>addr\<close> is the identity of the object behind the \<open>shared_ptr\<close>; \<open>transforms\<close> and
  \<open>gamut_checkers\<close> are the mutable caches \<open>_transforms\<close> and \<open>_gamut_checkers\<close>, whose
  entries may hold a null pointer. \<open>getComponentCount\<close> returns an \<open>unsigned int\<close>.
\<close>

record AnySpace =
  addr :: nat
  getType :: Type
  getName :: string
  getComponentCount :: "32 word"
  getProfile :: Profile
  getIntent :: RenderingIntent
  spaceToProfile :: "real list \<Rightarrow> real list"
  profileToSpace :: "real list \<Rightarrow> real list"
  transforms :: "string \<rightharpoonup> Transform option"
  gamut_checkers :: "string \<rightharpoonup> Transform option"

section \<open>AnySpace::isValidData\<close>

text \<open>
  \<open>n_values\<close> is a \<open>size_t\<close>, \<open>n_space\<close> an \<open>unsigned int\<close>: \<open>n_space + 1\<close> is computed
  in 32 bits and wraps, then both sides of each comparison are widened.
\<close>

definition isValidData :: "AnySpace \<Rightarrow> real list \<Rightarrow> bool" where
  "isValidData this values =
     (let n_values = length values;
          n_space = getComponentCount this
      in n_values = unat n_space \<or> n_values = unat (n_space + 1))"

section \<open>Manager\<close>

datatype error = ColorError string | NullDereference

record Manager =
  m_spaces :: "AnySpace list"

text \<open>\<open>Manager::find(Space::Type)\<close>: \<open>std::find_if\<close> over \<open>_spaces\<close>, null when nothing matches.\<close>

definition find_Type :: "Manager \<Rightarrow> Type \<Rightarrow> AnySpace option" where
  "find_Type m type = List.find (\<lambda>v. getType v = type) (m_spaces m)"

text \<open>\<open>Manager::find(std::string const &)\<close>.\<close>

definition find_name :: "Manager \<Rightarrow> string \<Rightarrow> AnySpace option" where
  "find_name m name = List.find (\<lambda>v. getName v = name) (m_spaces m)"

text \<open>
  \<open>Manager::addSpace\<close>: throws when \<open>find(space->getType())\<close> is not null, otherwise
  appends the space and returns \<open>_spaces.back()\<close>.
\<close>

definition addSpace :: "Manager \<Rightarrow> AnySpace \<Rightarrow> error + (AnySpace \<times> Manager)" where
  "addSpace m space =
     (if find_Type m (getType space) \<noteq> None
      then Inl (ColorError ''Can not add the same color space twice.'')
      else (let m' = m\<lparr>m_spaces := m_spaces m @ [space]\<rparr>
            in Inr (last (m_spaces m'), m')))"

section \<open>AnySpace::convert and the transform cache\<close>

text \<open>
  A call of the transform factory \<open>Transform::create_for_cms(from, to, intent)\<close>. The
  functions below return, next to their result, the list of factory calls they made.
\<close>

type_synonym factory_call = "Profile \<times> Profile \<times> RenderingIntent"

text \<open>
  \<open>AnySpace::profileToProfile\<close>. It returns the flag, the vector \<open>io\<close> it was given by
  reference, the space \<open>this\<close> with its (mutable) cache, and the factory calls made.
  \<open>_transforms.emplace\<close> runs only when the key is absent; \<open>_transforms[to_profile_id]\<close>
  would insert a null pointer for an absent key.
\<close>

definition profileToProfile ::
  "CMS_library \<Rightarrow> AnySpace \<Rightarrow> real list \<Rightarrow> AnySpace
     \<Rightarrow> bool \<times> real list \<times> AnySpace \<times> factory_call list" where
  "profileToProfile cms this io to_space =
     (let from_profile = getProfile this;
          to_profile = getProfile to_space
      in if profile_eq cms to_profile from_profile then (True, io, this, [])
         else
           let intent = getIntent this;
               intent = (if intent = UNKNOWN then getIntent to_space else intent);
               intent = (if intent = UNKNOWN then PERCEPTUAL else intent);
               to_profile_id = getChecksum to_profile @ intentIds cms intent;
               (this, made) =
                 (if transforms this to_profile_id = None
                  then (this\<lparr>transforms := (transforms this)
                          (to_profile_id \<mapsto> create_for_cms cms from_profile to_profile intent)\<rparr>,
                        [(from_profile, to_profile, intent)])
                  else (this, []))
           in case transforms this to_profile_id of
                Some (Some tr) \<Rightarrow> (let (ok, io) = do_transform tr io in (ok, io, this, made))
              | Some None \<Rightarrow> (False, io, this, made)
              | None \<Rightarrow>
                  (False, io, this\<lparr>transforms := (transforms this)(to_profile_id \<mapsto> None)\<rparr>,
                   made))"

text \<open>\<open>AnySpace::convert\<close>: the three stages, and the decode by the source space after a failed stage 2.\<close>

definition convert ::
  "CMS_library \<Rightarrow> AnySpace \<Rightarrow> real list \<Rightarrow> AnySpace
     \<Rightarrow> bool \<times> real list \<times> AnySpace \<times> factory_call list" where
  "convert cms this io to_space =
     (let io = spaceToProfile this io;
          (ok, io, this, made) = profileToProfile cms this io to_space
      in if ok then (True, profileToSpace to_space io, this, made)
         else (False, profileToSpace this io, this, made))"

text \<open>
  \<open>AnySpace::outOfGamut\<close>. The checker cache is keyed by the id of the destination
  profile; the cached pointer is dereferenced without a test.
\<close>

definition outOfGamut ::
  "CMS_library \<Rightarrow> AnySpace \<Rightarrow> real list \<Rightarrow> AnySpace
     \<Rightarrow> error + (bool \<times> AnySpace \<times> (Profile \<times> Profile) list)" where
  "outOfGamut cms this input to_space =
     (let from_profile = getProfile this;
          to_profile = getProfile to_space
      in if profile_eq cms to_profile from_profile then Inr (False, this, [])
         else
           let to_profile_id = getId to_profile;
               (this, made) =
                 (if gamut_checkers this to_profile_id = None
                  then (this\<lparr>gamut_checkers := (gamut_checkers this)
                          (to_profile_id \<mapsto> create_for_cms_checker cms from_profile to_profile)\<rparr>,
                        [(from_profile, to_profile)])
                  else (this, []))
           in case gamut_checkers this to_profile_id of
                Some (Some checker) \<Rightarrow> Inr (check_gamut checker input, this, made)
              | _ \<Rightarrow> Inl NullDereference)"

text \<open>
  The order of the spec for the rendering intent: the source space's intent if it is
  known, else the destination's if it is known, else Perceptual.
\<close>

definition spec_intent :: "AnySpace \<Rightarrow> AnySpace \<Rightarrow> RenderingIntent" where
  "spec_intent this to_space =
     (if getIntent this \<noteq> UNKNOWN then getIntent this
      else if getIntent to_space \<noteq> UNKNOWN then getIntent to_space
      else PERCEPTUAL)"

text \<open>
  The cache key of a call of \<open>profileToProfile\<close>: the checksum of the destination
  profile followed by the tag of the intent. A call between equal profiles has no key.
\<close>

definition cache_key :: "CMS_library \<Rightarrow> AnySpace \<Rightarrow> AnySpace \<Rightarrow> string option" where
  "cache_key cms this to_space =
     (if profile_eq cms (getProfile to_space) (getProfile this) then None
      else Some (getChecksum (getProfile to_space) @ intentIds cms (spec_intent this to_space)))"

text \<open>The space \<open>this\<close> after a sequence of calls of \<open>profileToProfile\<close> on it.\<close>

fun after_calls :: "CMS_library \<Rightarrow> AnySpace \<Rightarrow> (real list \<times> AnySpace) list \<Rightarrow> AnySpace" where
  "after_calls cms this [] = this"
| "after_calls cms this ((io, to_space) # calls) =
     after_calls cms (fst (snd (snd (profileToProfile cms this io to_space)))) calls"

section \<open>Lab\<close>

text \<open>
  The channel values are \<open>double\<close>s in the code and real numbers here: the arithmetic
  below is the exact arithmetic of the formulas, without the rounding of the machine.
\<close>

definition LUMA_SCALE :: real where
  "LUMA_SCALE = 100"

definition MIN_SCALE :: real where
  "MIN_SCALE = - 128"

definition MAX_SCALE :: real where
  "MAX_SCALE = 128"

definition MIN_CSS_SCALE :: real where
  "MIN_CSS_SCALE = - 125"

definition MAX_CSS_SCALE :: real where
  "MAX_CSS_SCALE = 125"

text \<open>
  Modelled from the spec: the macros \<open>SCALE_UP\<close> and \<open>SCALE_DOWN\<close> are not among the
  sources. \<open>SCALE_UP(v, a, b)\<close> maps a normalised value of \<open>[0,1]\<close> onto \<open>[a,b]\<close>, and
  \<open>SCALE_DOWN\<close> is its exact inverse.
\<close>

definition SCALE_UP :: "real \<Rightarrow> real \<Rightarrow> real \<Rightarrow> real" where
  "SCALE_UP v a b = v * (b - a) + a"

definition SCALE_DOWN :: "real \<Rightarrow> real \<Rightarrow> real \<Rightarrow> real" where
  "SCALE_DOWN v a b = (v - a) / (b - a)"

text \<open>\<open>Lab::scaleUp\<close> and \<open>Lab::scaleDown\<close>, on a vector of three or more values.\<close>

definition scaleUp :: "real list \<Rightarrow> real list" where
  "scaleUp in_out =
     (let in_out = in_out[0 := SCALE_UP (in_out ! 0) 0 LUMA_SCALE];
          in_out = in_out[1 := SCALE_UP (in_out ! 1) MIN_SCALE MAX_SCALE];
          in_out = in_out[2 := SCALE_UP (in_out ! 2) MIN_SCALE MAX_SCALE]
      in in_out)"

definition scaleDown :: "real list \<Rightarrow> real list" where
  "scaleDown in_out =
     (let in_out = in_out[0 := SCALE_DOWN (in_out ! 0) 0 LUMA_SCALE];
          in_out = in_out[1 := SCALE_DOWN (in_out ! 1) MIN_SCALE MAX_SCALE];
          in_out = in_out[2 := SCALE_DOWN (in_out ! 2) MIN_SCALE MAX_SCALE]
      in in_out)"

text \<open>
  \<open>Lab::toXYZ\<close>. The table \<open>illuminant_d65\<close> (an array of three numbers) is not among
  the sources and is a parameter. The code indexes the vector without a test: a vector
  of fewer than three values has no defined result, which is \<open>None\<close>.
  \<open>std::pow(x, 3)\<close> is the cube.
\<close>

definition toXYZ :: "real list \<Rightarrow> real list \<Rightarrow> real list option" where
  "toXYZ illuminant_d65 in_out =
     (if length in_out < 3 then None
      else
        let in_out = scaleUp in_out;
            y = (in_out ! 0 + 16) / 116;
            in_out = in_out[0 := in_out ! 1 / 500 + y];
            in_out = in_out[1 := y];
            in_out = in_out[2 := y - in_out ! 2 / 200]
        in Some (fold (\<lambda>i in_out.
                   let x3 = (in_out ! i) ^ 3;
                       in_out = (if x3 > 8856 / 1000000 then in_out[i := x3]
                                 else in_out[i := (in_out ! i - 16 / 116) / (7787 / 1000)])
                   in in_out[i := in_out ! i * illuminant_d65 ! i])
              [0, 1, 2] in_out))"

text \<open>
  \<open>Lab::fromXYZ\<close>. \<open>std::pow(x, 0.33333)\<close> is taken of values above 0.008856 only,
  where it is \<open>x powr 0.33333\<close>.
\<close>

definition fromXYZ :: "real list \<Rightarrow> real list \<Rightarrow> real list option" where
  "fromXYZ illuminant_d65 in_out =
     (if length in_out < 3 then None
      else
        let in_out = fold (\<lambda>i in_out. in_out[i := in_out ! i / illuminant_d65 ! i]) [0, 1, 2] in_out;
            l = (if in_out ! 1 > 8856 / 1000000
                 then 116 * (in_out ! 1) powr (33333 / 100000) - 16
                 else (9033 / 10) * in_out ! 1);
            in_out = fold (\<lambda>i in_out.
                       if in_out ! i > 8856 / 1000000
                       then in_out[i := (in_out ! i) powr (33333 / 100000)]
                       else in_out[i := (7787 / 1000) * in_out ! i + 16 / 116])
                     [0, 1, 2] in_out;
            in_out = in_out[2 := 200 * (in_out ! 1 - in_out ! 2)];
            in_out = in_out[1 := 500 * (in_out ! 0 - in_out ! 1)];
            in_out = in_out[0 := l]
        in Some (scaleDown in_out))"

text \<open>
  The bodies of the loops of \<open>Lab::toXYZ\<close> and \<open>Lab::fromXYZ\<close> on one channel (before
  the multiplication by, and after the division by, the illuminant), and the lightness
  \<open>l\<close> of \<open>Lab::fromXYZ\<close>.
\<close>

definition xyz_channel :: "real \<Rightarrow> real" where
  "xyz_channel t = (if t ^ 3 > 8856 / 1000000 then t ^ 3 else (t - 16 / 116) / (7787 / 1000))"

definition lab_channel :: "real \<Rightarrow> real" where
  "lab_channel u = (if u > 8856 / 1000000 then u powr (33333 / 100000) else (7787 / 1000) * u + 16 / 116)"

definition lab_luma :: "real \<Rightarrow> real" where
  "lab_luma u = (if u > 8856 / 1000000 then 116 * u powr (33333 / 100000) - 16 else (9033 / 10) * u)"

text \<open>The round trip: \<open>Lab::fromXYZ\<close> after \<open>Lab::toXYZ\<close>.\<close>

definition lab_round_trip :: "real list \<Rightarrow> real list \<Rightarrow> real list option" where
  "lab_round_trip illuminant_d65 v = Option.bind (toXYZ illuminant_d65 v) (fromXYZ illuminant_d65)"

text \<open>A vector of three channels in \<open>[0,1]\<close>, with or without a trailing opacity in \<open>[0,1]\<close>.\<close>

definition normalized :: "real list \<Rightarrow> bool" where
  "normalized v \<longleftrightarrow> (length v = 3 \<or> length v = 4) \<and> list_all (\<lambda>c. 0 \<le> c \<and> c \<le> 1) v"

text \<open>The illuminant table: three numbers, none of them zero.\<close>

definition illuminant_ok :: "real list \<Rightarrow> bool" where
  "illuminant_ok w \<longleftrightarrow> length w = 3 \<and> list_all (\<lambda>c. c \<noteq> 0) w"

text \<open>The white point D65 of the spec, in the usual rounding.\<close>

definition d65 :: "real list" where
  "d65 = [9504 / 10000, 1, 10888 / 10000]"

subsection \<open>CSS text of a Lab colour\<close>

text \<open>
  Modelled from the spec: the text layer (\<open>CssFuncPrinter\<close> of \<open>colors/printer.h\<close> and
  \<open>append_css_value\<close> of the parser) is not among the sources. The spec fixes the
  functional notation \<open>lab(L a b / alpha)\<close>, the separators \<open>,\<close> and \<open>/\<close>, percentages
  next to plain numbers, and that the numbers survive printing and reading; the layout
  of the digits is left open. The text after the name of the function and its opening
  parenthesis is therefore a list of tokens that carry their numbers.
\<close>

datatype css_token = Number real | Percentage real | Separator char | CloseParen

type_synonym css_text = "string \<times> css_token list"

text \<open>
  Modelled from the spec: \<open>CssFuncPrinter(channels, prefix)\<close> collects the values
  written to it with \<open><<\<close>; its text is the prefix, the channel values, the opacity
  (the value after the last channel) behind a slash, and the closing parenthesis.
\<close>

record CssFuncPrinter =
  channels :: nat
  prefix :: string
  written :: "real list"

definition put_value :: "CssFuncPrinter \<Rightarrow> real \<Rightarrow> CssFuncPrinter" where
  "put_value os v = os\<lparr>written := written os @ [v]\<rparr>"

definition printer_text :: "CssFuncPrinter \<Rightarrow> css_text" where
  "printer_text os =
     (prefix os,
      map Number (take (channels os) (written os))
      @ (if channels os < length (written os)
         then [Separator CHR ''/'', Number (written os ! channels os)] else [])
      @ [CloseParen])"

text \<open>
  Modelled from the spec: \<open>append_css_value(ss, output, end, sep, scale)\<close> reads one
  value unless the end was reached, divides a percentage by 100 and a plain number by
  \<open>scale\<close>, appends it to \<open>output\<close>, skips the separator \<open>sep\<close> when it follows, and
  sets \<open>end\<close> at the closing parenthesis. On failure nothing is appended. The default
  arguments are no separator and the scale 1.
\<close>

definition append_css_value ::
  "css_token list \<Rightarrow> real list \<Rightarrow> bool \<Rightarrow> char \<Rightarrow> real
     \<Rightarrow> bool \<times> css_token list \<times> real list \<times> bool" where
  "append_css_value ss output at_end sep scale =
     (if at_end then (False, ss, output, at_end)
      else
        let after_value = (\<lambda>rest output.
              let rest = (case rest of
                            Separator c # rest' \<Rightarrow> if c = sep then rest' else rest
                          | _ \<Rightarrow> rest)
              in case rest of
                   CloseParen # rest' \<Rightarrow> (True, rest', output, True)
                 | _ \<Rightarrow> (True, rest, output, False))
        in case ss of
             Number v # rest \<Rightarrow> after_value rest (output @ [v / scale])
           | Percentage v # rest \<Rightarrow> after_value rest (output @ [v / 100])
           | _ \<Rightarrow> (False, ss, output, at_end))"

text \<open>
  \<open>Lab::toString\<close>. The code indexes \<open>values\<close> without a test: fewer than three values
  have no defined result.
\<close>

definition toString :: "real list \<Rightarrow> bool \<Rightarrow> css_text option" where
  "toString values opacity =
     (if length values < 3 then None
      else
        let os = \<lparr>channels = 3, prefix = ''lab'', written = []\<rparr>;
            os = put_value os (values ! 0 * LUMA_SCALE);
            os = put_value os (SCALE_UP (values ! 1) MIN_CSS_SCALE MAX_CSS_SCALE);
            os = put_value os (SCALE_UP (values ! 2) MIN_CSS_SCALE MAX_CSS_SCALE);
            os = (if opacity \<and> length values = 4 then put_value os (values ! 3) else os)
        in Some (printer_text os))"

text \<open>
  \<open>Lab::Parser::parse\<close>, on the text after \<open>lab(\<close>. The conjunction is evaluated from
  the left and stops at the first failure; the fourth read may fail.
\<close>

definition parse :: "css_token list \<Rightarrow> real list \<Rightarrow> bool \<times> css_token list \<times> real list" where
  "parse ss output =
     (let at_end = False;
          (ok, ss, output, at_end) = append_css_value ss output at_end CHR '','' LUMA_SCALE
      in if \<not> ok then (False, ss, output)
         else
           let (ok, ss, output, at_end) = append_css_value ss output at_end CHR '','' MAX_CSS_SCALE
           in if \<not> ok then (False, ss, output)
              else
                let (ok, ss, output, at_end) = append_css_value ss output at_end CHR ''/'' MAX_CSS_SCALE
                in if \<not> ok then (False, ss, output)
                   else
                     let (ok, ss, output, at_end) = append_css_value ss output at_end (CHR 0x00) 1
                     in if \<not> at_end then (False, ss, output)
                        else
                          let output = output[1 := (output ! 1 + 1) / 2];
                              output = output[2 := (output ! 2 + 1) / 2]
                          in (True, ss, output))"

section \<open>Concrete profiles, spaces and libraries\<close>

text \<open>Two profiles with different checksums.\<close>

definition srgb_profile :: Profile where
  "srgb_profile = \<lparr>getChecksum = ''aa'', getId = ''sRGB''\<rparr>"

definition print_profile :: Profile where
  "print_profile = \<lparr>getChecksum = ''bb'', getId = ''Print''\<rparr>"

text \<open>
  A space that keeps the hooks of the base class: \<open>AnySpace::spaceToProfile\<close> and
  \<open>AnySpace::profileToSpace\<close> have empty bodies. Its caches are empty.
\<close>

definition plain_space :: "nat \<Rightarrow> Type \<Rightarrow> string \<Rightarrow> Profile \<Rightarrow> AnySpace" where
  "plain_space a t n p =
     \<lparr>addr = a, getType = t, getName = n, getComponentCount = 3, getProfile = p,
      getIntent = UNKNOWN, spaceToProfile = (\<lambda>io. io), profileToSpace = (\<lambda>io. io),
      transforms = Map.empty, gamut_checkers = Map.empty\<rparr>"

text \<open>A space that stores percentages of the values of its profile.\<close>

definition percent_space :: "nat \<Rightarrow> Type \<Rightarrow> string \<Rightarrow> Profile \<Rightarrow> AnySpace" where
  "percent_space a t n p =
     (plain_space a t n p)\<lparr>spaceToProfile := map (\<lambda>v. v / 100), profileToSpace := map (\<lambda>v. v * 100)\<rparr>"

text \<open>A transform that overwrites the vector with zeros and reports a failure.\<close>

definition failing_transform :: Transform where
  "failing_transform = \<lparr>do_transform = (\<lambda>io. (False, map (\<lambda>v. 0) io)), check_gamut = (\<lambda>io. True)\<rparr>"

text \<open>A library whose profiles are compared by checksum and whose factory finds no transform.\<close>

definition no_transform_cms :: CMS_library where
  "no_transform_cms =
     \<lparr>profile_eq = (\<lambda>p q. getChecksum p = getChecksum q),
      intentIds = (\<lambda>i. if i = PERCEPTUAL then ''p'' else ''x''),
      create_for_cms = (\<lambda>p q i. None),
      create_for_cms_checker = (\<lambda>p q. None)\<rparr>"

text \<open>A library whose factory builds a transform that fails after writing to the vector.\<close>

definition failing_cms :: CMS_library where
  "failing_cms = no_transform_cms\<lparr>create_for_cms := (\<lambda>p q i. Some failing_transform)\<rparr>"

section \<open>Auxiliary facts\<close>

lemma unat_succ_32:
  assumes "unat (c :: 32 word) + 1 < 2 ^ 32"
  shows "unat (c + 1) = unat c + 1"
proof -
  have "unat c + unat (1 :: 32 word) < 2 ^ LENGTH(32)"
    using assms by simp
  then have "unat (c + 1) = unat c + unat (1 :: 32 word)"
    by (simp only: unat_add_lem)
  then show ?thesis by simp
qed

lemma find_append:
  "List.find P (xs @ ys) = (case List.find P xs of Some x \<Rightarrow> Some x | None \<Rightarrow> List.find P ys)"
  by (induction xs) auto

lemma find_first_index:
  "List.find P xs = Some x \<longleftrightarrow>
     (\<exists>i < length xs. xs ! i = x \<and> P x \<and> (\<forall>j < i. \<not> P (xs ! j)))"
  by (auto simp: find_Some_iff)

lemmas fixture_defs = plain_space_def percent_space_def srgb_profile_def print_profile_def
  no_transform_cms_def failing_cms_def failing_transform_def

lemma profileToProfile_same:
  "profile_eq cms (getProfile to_space) (getProfile this) \<Longrightarrow>
     profileToProfile cms this io to_space = (True, io, this, [])"
  by (simp add: profileToProfile_def)

lemma intent_choice:
  "(if (if a = UNKNOWN then b else a) = UNKNOWN then PERCEPTUAL else (if a = UNKNOWN then b else a))
     = (if a \<noteq> UNKNOWN then a else if b \<noteq> UNKNOWN then b else PERCEPTUAL)"
  by simp

lemma profileToProfile_other:
  assumes "\<not> profile_eq cms (getProfile to_space) (getProfile this)"
  shows "profileToProfile cms this io to_space =
    (let k = getChecksum (getProfile to_space) @ intentIds cms (spec_intent this to_space)
     in case transforms this k of
          None \<Rightarrow>
            (case create_for_cms cms (getProfile this) (getProfile to_space) (spec_intent this to_space) of
               Some t \<Rightarrow> (fst (do_transform t io), snd (do_transform t io),
                 this\<lparr>transforms := (transforms this)(k \<mapsto> Some t)\<rparr>,
                 [(getProfile this, getProfile to_space, spec_intent this to_space)])
             | None \<Rightarrow> (False, io, this\<lparr>transforms := (transforms this)(k \<mapsto> None)\<rparr>,
                 [(getProfile this, getProfile to_space, spec_intent this to_space)]))
        | Some (Some t) \<Rightarrow> (fst (do_transform t io), snd (do_transform t io), this, [])
        | Some None \<Rightarrow> (False, io, this, []))"
proof -
  define intent where "intent = spec_intent this to_space"
  define k where "k = getChecksum (getProfile to_space) @ intentIds cms intent"
  have i: "(let intent = getIntent this;
               intent = (if intent = UNKNOWN then getIntent to_space else intent)
            in (if intent = UNKNOWN then PERCEPTUAL else intent)) = intent"
    by (simp add: intent_def spec_intent_def Let_def)
  have "profileToProfile cms this io to_space =
    (let (this', made) =
                 (if transforms this k = None
                  then (this\<lparr>transforms := (transforms this)
                          (k \<mapsto> create_for_cms cms (getProfile this) (getProfile to_space) intent)\<rparr>,
                        [(getProfile this, getProfile to_space, intent)])
                  else (this, []))
           in case transforms this' k of
                Some (Some tr) \<Rightarrow> (let (ok, io) = do_transform tr io in (ok, io, this', made))
              | Some None \<Rightarrow> (False, io, this', made)
              | None \<Rightarrow>
                  (False, io, this'\<lparr>transforms := (transforms this')(k \<mapsto> None)\<rparr>,
                   made))"
    unfolding profileToProfile_def k_def i [symmetric] using assms by (simp only: Let_def if_False)
  also have "\<dots> = (case transforms this k of
          None \<Rightarrow>
            (case create_for_cms cms (getProfile this) (getProfile to_space) intent of
               Some t \<Rightarrow> (fst (do_transform t io), snd (do_transform t io),
                 this\<lparr>transforms := (transforms this)(k \<mapsto> Some t)\<rparr>,
                 [(getProfile this, getProfile to_space, intent)])
             | None \<Rightarrow> (False, io, this\<lparr>transforms := (transforms this)(k \<mapsto> None)\<rparr>,
                 [(getProfile this, getProfile to_space, intent)]))
        | Some (Some t) \<Rightarrow> (fst (do_transform t io), snd (do_transform t io), this, [])
        | Some None \<Rightarrow> (False, io, this, []))"
  proof (cases "transforms this k")
    case None
    then show ?thesis
      by (cases "create_for_cms cms (getProfile this) (getProfile to_space) intent")
        (simp_all add: split_beta)
  next
    case (Some a)
    then show ?thesis by (cases a) (simp_all add: split_beta)
  qed
  finally show ?thesis unfolding k_def intent_def Let_def .
qed

lemma profileToProfile_keeps:
  assumes "transforms this k = Some tr"
  shows "transforms (fst (snd (snd (profileToProfile cms this io to_space)))) k = Some tr"
proof (cases "profile_eq cms (getProfile to_space) (getProfile this)")
  case True
  then show ?thesis using assms by (simp add: profileToProfile_same)
next
  case False
  define k' where "k' = getChecksum (getProfile to_space) @ intentIds cms (spec_intent this to_space)"
  show ?thesis
  proof (cases "transforms this k'")
    case None
    then have "k' \<noteq> k" using assms by auto
    then show ?thesis
      using assms None
      by (cases "create_for_cms cms (getProfile this) (getProfile to_space) (spec_intent this to_space)")
        (simp_all add: profileToProfile_other [OF False] k'_def [symmetric])
  next
    case (Some a)
    then show ?thesis
      using assms by (cases a) (simp_all add: profileToProfile_other [OF False] k'_def [symmetric])
  qed
qed

lemma profileToProfile_fixed:
  "getProfile (fst (snd (snd (profileToProfile cms this io to_space)))) = getProfile this
   \<and> getIntent (fst (snd (snd (profileToProfile cms this io to_space)))) = getIntent this
   \<and> profileToSpace (fst (snd (snd (profileToProfile cms this io to_space)))) = profileToSpace this"
proof (cases "profile_eq cms (getProfile to_space) (getProfile this)")
  case True
  then show ?thesis by (simp add: profileToProfile_same)
next
  case False
  show ?thesis
    by (simp add: profileToProfile_other [OF False] Let_def split: option.split)
qed

lemma after_calls_keeps:
  "transforms this k = Some tr \<Longrightarrow> transforms (after_calls cms this calls) k = Some tr"
proof (induction calls arbitrary: this)
  case Nil
  then show ?case by simp
next
  case (Cons c calls)
  obtain io to_space where c: "c = (io, to_space)" by (cases c)
  show ?case
    unfolding c after_calls.simps
    by (rule Cons.IH) (rule profileToProfile_keeps [OF Cons.prems])
qed

lemma after_calls_fixed:
  "getProfile (after_calls cms this calls) = getProfile this
   \<and> getIntent (after_calls cms this calls) = getIntent this"
proof (induction calls arbitrary: this)
  case Nil
  then show ?case by simp
next
  case (Cons c calls)
  obtain io to_space where c: "c = (io, to_space)" by (cases c)
  show ?case
    unfolding c after_calls.simps
    using Cons.IH [of "fst (snd (snd (profileToProfile cms this io to_space)))"]
      profileToProfile_fixed [of cms this io to_space]
    by simp
qed

lemma cache_key_after_calls:
  "cache_key cms (after_calls cms this calls) to_space = cache_key cms this to_space"
  by (simp add: cache_key_def spec_intent_def after_calls_fixed)

lemma cache_key_Some:
  "cache_key cms this to_space = Some k \<longleftrightarrow>
     \<not> profile_eq cms (getProfile to_space) (getProfile this)
     \<and> k = getChecksum (getProfile to_space) @ intentIds cms (spec_intent this to_space)"
  by (auto simp: cache_key_def)

lemma profileToProfile_null_entry:
  assumes "cache_key cms this to_space = Some k" and "transforms this k = Some None"
  shows "profileToProfile cms this io to_space = (False, io, this, [])"
proof -
  from assms(1) have ne: "\<not> profile_eq cms (getProfile to_space) (getProfile this)"
    and k: "k = getChecksum (getProfile to_space) @ intentIds cms (spec_intent this to_space)"
    by (simp_all add: cache_key_Some)
  show ?thesis
    using assms(2) by (simp add: profileToProfile_other [OF ne] k [symmetric])
qed

subsection \<open>The Lab formulas on vectors of three or four values\<close>

lemma scaleUp_Cons:
  "scaleUp (a # b # c # r) = (100 * a) # (256 * b - 128) # (256 * c - 128) # r"
  by (simp add: scaleUp_def SCALE_UP_def LUMA_SCALE_def MIN_SCALE_def MAX_SCALE_def)

lemma scaleDown_Cons:
  "scaleDown (a # b # c # r) = (a / 100) # ((b + 128) / 256) # ((c + 128) / 256) # r"
  by (simp add: scaleDown_def SCALE_DOWN_def LUMA_SCALE_def MIN_SCALE_def MAX_SCALE_def)

lemma toXYZ_Cons:
  "toXYZ [w0, w1, w2] (a # b # c # r) =
     Some (xyz_channel ((256 * b - 128) / 500 + (100 * a + 16) / 116) * w0
         # xyz_channel ((100 * a + 16) / 116) * w1
         # xyz_channel ((100 * a + 16) / 116 - (256 * c - 128) / 200) * w2 # r)"
  unfolding toXYZ_def scaleUp_Cons xyz_channel_def
  by (simp add: Let_def)

lemma fromXYZ_Cons:
  "fromXYZ [w0, w1, w2] (X # Y # Z # r) =
     Some (lab_luma (Y / w1) / 100
         # (500 * (lab_channel (X / w0) - lab_channel (Y / w1)) + 128) / 256
         # (200 * (lab_channel (Y / w1) - lab_channel (Z / w2)) + 128) / 256 # r)"
  unfolding fromXYZ_def lab_channel_def lab_luma_def
  by (simp add: Let_def scaleDown_Cons)

subsection \<open>Bounds on the power 0.99999\<close>

lemma powr_split:
  fixes t :: real
  assumes "0 < t"
  shows "t powr (99999 / 100000) = t * exp (- (1 / 100000) * ln t)"
proof -
  have "t powr (99999 / 100000) = t powr (1 + - (1 / 100000))"
    by simp
  also have "\<dots> = t powr 1 * t powr (- (1 / 100000))"
    by (rule powr_add)
  also have "\<dots> = t * exp (- (1 / 100000) * ln t)"
    using assms by (simp add: powr_def)
  finally show ?thesis .
qed

lemma ln_fifth: "- 2 \<le> ln (1 / 5 :: real)"
proof -
  have "(5::real) \<le> exp 2"
    using exp_lower_Taylor_quadratic [of "2::real"] by simp
  then have "exp (- 2) \<le> (1 / 5 :: real)"
    by (simp add: exp_minus field_simps)
  then show ?thesis
    by (simp add: ln_ge_iff)
qed

lemma ln_two_fifths: "- 1 \<le> ln (2 / 5 :: real)"
proof -
  have "(5 / 2 :: real) \<le> exp 1"
    using exp_lower_Taylor_quadratic [of "1::real"] by simp
  then have "exp (- 1) \<le> (2 / 5 :: real)"
    by (simp add: exp_minus field_simps)
  then show ?thesis
    by (simp add: ln_ge_iff)
qed

lemma neg_ln_le:
  fixes t :: real
  assumes "0 < t"
  shows "- ln t \<le> 1 / t - 1"
proof -
  have "ln (1 / t) \<le> 1 / t - 1"
    using assms by (intro ln_le_minus_one) simp
  then show ?thesis
    using assms by (simp add: ln_div)
qed

lemma neg_t_ln_t:
  fixes t :: real
  assumes "0 < t"
  shows "t * (- ln t) \<le> 2 / 5"
proof -
  define k :: real where "k = 2 / 5"
  have k: "0 < k" "- 1 \<le> ln k"
    using ln_two_fifths by (simp_all add: k_def)
  have "ln (k / t) \<le> k / t - 1"
    using assms k by (intro ln_le_minus_one) simp
  moreover have "ln (k / t) = ln k - ln t"
    using assms k by (simp add: ln_div)
  ultimately have "- ln t \<le> k / t"
    using k by linarith
  then have "t * (- ln t) \<le> t * (k / t)"
    using assms by (intro mult_left_mono) simp_all
  then show ?thesis
    using assms by (simp add: k_def)
qed

lemma powr_excess_low:
  fixes t :: real
  assumes "1 / 5 \<le> t" and "t \<le> 1"
  shows "0 \<le> t powr (99999 / 100000) - t
       \<and> t powr (99999 / 100000) - t \<le> (1 / 100000) * (t * (- ln t)) + 4 / 10000000000"
proof -
  have pos: "0 < t" using assms by simp
  have l0: "ln t \<le> 0" using pos assms by simp
  have "ln (1 / 5) \<le> ln t" using pos assms by simp
  then have l2: "- 2 \<le> ln t" using ln_fifth by linarith
  define s where "s = - (1 / 100000) * ln t"
  have s: "0 \<le> s" "s \<le> 2 / 100000"
    using l0 l2 by (simp_all add: s_def)
  have e1: "1 \<le> exp s" using s by simp
  have "exp s \<le> 1 + s + s\<^sup>2"
    using s by (intro exp_bound) simp_all
  moreover have "s\<^sup>2 \<le> (2 / 100000)\<^sup>2"
    using s by (intro power_mono) simp_all
  ultimately have e2: "exp s - 1 \<le> s + 4 / 10000000000"
    by (simp add: power2_eq_square)
  have eq: "t powr (99999 / 100000) - t = t * (exp s - 1)"
    unfolding s_def by (simp add: powr_split [OF pos] algebra_simps)
  have lo: "0 \<le> t * (exp s - 1)"
    using pos e1 by simp
  have "t * (exp s - 1) \<le> t * (s + 4 / 10000000000)"
    using pos e2 by (intro mult_left_mono) simp_all
  also have "\<dots> = t * s + t * (4 / 10000000000)"
    by (simp add: algebra_simps)
  also have "\<dots> \<le> t * s + 1 * (4 / 10000000000)"
    using assms by (intro add_left_mono mult_right_mono) simp_all
  finally have hi: "t * (exp s - 1) \<le> t * s + 4 / 10000000000"
    by simp
  have ts: "t * s = (1 / 100000) * (t * (- ln t))"
    by (simp add: s_def)
  show ?thesis
    unfolding eq using lo hi ts by simp
qed

lemma powr_excess_high:
  fixes t :: real
  assumes "1 \<le> t"
  shows "- ((1 / 100000) * (t * (t - 1))) \<le> t powr (99999 / 100000) - t
       \<and> t powr (99999 / 100000) - t \<le> 0"
proof -
  have pos: "0 < t" using assms by simp
  have l0: "0 \<le> ln t" using assms by simp
  have l1: "ln t \<le> t - 1" using pos by (rule ln_le_minus_one)
  define s where "s = - (1 / 100000) * ln t"
  have s: "s \<le> 0" "- ((1 / 100000) * (t - 1)) \<le> s"
    using l0 l1 by (simp_all add: s_def)
  have e1: "exp s - 1 \<le> 0" using s by simp
  have e2: "s \<le> exp s - 1"
    using exp_ge_add_one_self [of s] by linarith
  have eq: "t powr (99999 / 100000) - t = t * (exp s - 1)"
    unfolding s_def by (simp add: powr_split [OF pos] algebra_simps)
  have hi: "t * (exp s - 1) \<le> 0"
    using pos e1 by (simp add: mult_le_0_iff)
  have "t * (- ((1 / 100000) * (t - 1))) \<le> t * s"
    using pos s by (intro mult_left_mono) simp_all
  also have "\<dots> \<le> t * (exp s - 1)"
    using pos e2 by (intro mult_left_mono) simp_all
  finally have lo: "- ((1 / 100000) * (t * (t - 1))) \<le> t * (exp s - 1)"
    by (simp add: algebra_simps)
  show ?thesis
    unfolding eq using lo hi by simp
qed

lemma powr_excess_low_const:
  fixes t :: real
  assumes "1 / 5 \<le> t" and "t \<le> 1"
  shows "t powr (99999 / 100000) - t \<le> 40004 / 10000000000"
proof -
  have "t * (- ln t) \<le> 2 / 5"
    using assms by (intro neg_t_ln_t) simp
  then have "(1 / 100000) * (t * (- ln t)) \<le> (1 / 100000) * (2 / 5)"
    by (intro mult_left_mono) simp_all
  then show ?thesis
    using powr_excess_low [OF assms] by simp
qed

lemma powr_excess_low_linear:
  fixes t :: real
  assumes "1 / 5 \<le> t" and "t \<le> 1"
  shows "t powr (99999 / 100000) - t \<le> (1 / 100000) * (1 - t) + 4 / 10000000000"
proof -
  have pos: "0 < t" using assms by simp
  have "t * (- ln t) \<le> t * (1 / t - 1)"
    using pos neg_ln_le [OF pos] by (intro mult_left_mono) simp_all
  also have "\<dots> = 1 - t"
    using pos by (simp add: algebra_simps)
  finally have "(1 / 100000) * (t * (- ln t)) \<le> (1 / 100000) * (1 - t)"
    by (intro mult_left_mono) simp_all
  then show ?thesis
    using powr_excess_low [OF assms] by linarith
qed

subsection \<open>The round trip of one channel\<close>

lemma cube_powr:
  fixes s :: real
  assumes "0 < s"
  shows "(s ^ 3) powr (33333 / 100000) = s powr (99999 / 100000)"
proof -
  have "(s ^ 3) powr (33333 / 100000) = (s powr 3) powr (33333 / 100000)"
    using assms by simp
  also have "\<dots> = s powr (3 * (33333 / 100000))"
    by (rule powr_powr)
  finally show ?thesis by simp
qed

lemma cube_small:
  fixes t :: real
  assumes "t \<le> 1 / 5"
  shows "t ^ 3 \<le> 8856 / 1000000"
proof -
  have "t ^ 3 \<le> (1 / 5) ^ 3"
    using assms by (intro power_mono_odd) simp_all
  then show ?thesis by (simp add: power3_eq_cube)
qed

lemma window_error:
  fixes t :: real
  assumes "t ^ 3 \<le> 8856 / 1000000"
    and "(t - 16 / 116) / (7787 / 1000) > 8856 / 1000000"
  shows "- (1 / 100000000) \<le> ((t - 16 / 116) / (7787 / 1000)) powr (33333 / 100000) - t
       \<and> ((t - 16 / 116) / (7787 / 1000)) powr (33333 / 100000) - t \<le> 47 / 10000000"
proof -
  define u where "u = (t - 16 / 116) / (7787 / 1000)"
  have lo: "206892706 / 1000000000 < t"
    using assms(2) by (simp add: field_simps)
  have hi: "t < 206893036 / 1000000000"
  proof (rule ccontr)
    assume "\<not> t < 206893036 / 1000000000"
    then have "(206893036 / 1000000000) ^ 3 \<le> t ^ 3"
      by (intro power_mono) simp_all
    with assms(1) show False by (simp add: power3_eq_cube)
  qed
  have u_lo: "(206893033 / 1000000000) ^ 3 \<le> u"
    using assms(2) by (simp add: u_def power3_eq_cube)
  have u_hi: "u \<le> (206893365 / 1000000000) ^ 3"
    using hi by (simp add: u_def power3_eq_cube field_simps)
  have "((206893033 / 1000000000) ^ 3) powr (33333 / 100000) \<le> u powr (33333 / 100000)"
    using u_lo by (intro powr_mono2) simp_all
  moreover have "((206893033 / 1000000000 :: real) ^ 3) powr (33333 / 100000)
      = (206893033 / 1000000000) powr (99999 / 100000)"
    by (rule cube_powr) simp
  ultimately have p_lo: "(206893033 / 1000000000 :: real) powr (99999 / 100000) \<le> u powr (33333 / 100000)"
    by (simp only:)
  have "0 \<le> u" using u_lo by (simp add: power3_eq_cube)
  then have "u powr (33333 / 100000) \<le> ((206893365 / 1000000000) ^ 3) powr (33333 / 100000)"
    using u_hi by (intro powr_mono2) simp_all
  moreover have "((206893365 / 1000000000 :: real) ^ 3) powr (33333 / 100000)
      = (206893365 / 1000000000) powr (99999 / 100000)"
    by (rule cube_powr) simp
  ultimately have p_hi: "u powr (33333 / 100000) \<le> (206893365 / 1000000000 :: real) powr (99999 / 100000)"
    by (simp only:)
  have "0 \<le> (206893033 / 1000000000 :: real) powr (99999 / 100000) - 206893033 / 1000000000"
    using powr_excess_low [of "206893033 / 1000000000"] by simp
  with p_lo have b_lo: "206893033 / 1000000000 \<le> u powr (33333 / 100000)"
    by linarith
  have "(206893365 / 1000000000 :: real) powr (99999 / 100000) - 206893365 / 1000000000
      \<le> 40004 / 10000000000"
    by (rule powr_excess_low_const) simp_all
  with p_hi have b_hi: "u powr (33333 / 100000) \<le> 206893365 / 1000000000 + 40004 / 10000000000"
    by linarith
  show ?thesis
    using lo hi b_lo b_hi unfolding u_def [symmetric] by linarith
qed

lemma channel_nonlinear:
  fixes t :: real
  assumes "t ^ 3 > 8856 / 1000000"
  shows "1 / 5 < t \<and> lab_channel (xyz_channel t) = t powr (99999 / 100000)"
proof -
  have t: "1 / 5 < t"
    using cube_small [of t] assms by (cases "t \<le> 1 / 5") simp_all
  then show ?thesis
    using assms by (simp add: lab_channel_def xyz_channel_def cube_powr)
qed

lemma channel_error_low:
  fixes t :: real
  assumes "t \<le> 1"
  shows "- (1 / 100000000) \<le> lab_channel (xyz_channel t) - t
       \<and> lab_channel (xyz_channel t) - t \<le> 47 / 10000000"
proof (cases "t ^ 3 > 8856 / 1000000")
  case True
  from channel_nonlinear [OF True]
  have t: "1 / 5 \<le> t" and eq: "lab_channel (xyz_channel t) = t powr (99999 / 100000)"
    by simp_all
  show ?thesis
    unfolding eq using powr_excess_low [OF t assms] powr_excess_low_const [OF t assms] by linarith
next
  case False
  then have x: "xyz_channel t = (t - 16 / 116) / (7787 / 1000)"
    by (simp add: xyz_channel_def)
  show ?thesis
  proof (cases "(t - 16 / 116) / (7787 / 1000) > 8856 / 1000000")
    case True
    then have "lab_channel (xyz_channel t) = ((t - 16 / 116) / (7787 / 1000)) powr (33333 / 100000)"
      unfolding x lab_channel_def by simp
    then show ?thesis
      using window_error [of t] False True by simp
  next
    case False
    then have "lab_channel (xyz_channel t) = 7787 / 1000 * ((t - 16 / 116) / (7787 / 1000)) + 16 / 116"
      unfolding x lab_channel_def by (simp only: if_False)
    also have "\<dots> = t" by (simp add: field_simps)
    finally show ?thesis by simp
  qed
qed

lemma channel_error_mid:
  fixes t :: real
  assumes "21 / 100 \<le> t" and "t \<le> 1"
  shows "0 \<le> lab_channel (xyz_channel t) - t
       \<and> lab_channel (xyz_channel t) - t \<le> (1 / 100000) * (1 - t) + 4 / 10000000000"
proof -
  have "(21 / 100) ^ 3 \<le> t ^ 3"
    using assms by (intro power_mono) simp_all
  then have c: "t ^ 3 > 8856 / 1000000"
    by (simp add: power3_eq_cube)
  from channel_nonlinear [OF c]
  have t: "1 / 5 \<le> t" and eq: "lab_channel (xyz_channel t) = t powr (99999 / 100000)"
    by simp_all
  show ?thesis
    unfolding eq using powr_excess_low [OF t assms(2)] powr_excess_low_linear [OF t assms(2)]
    by linarith
qed

lemma channel_error_high:
  fixes t :: real
  assumes "1 \<le> t"
  shows "- ((1 / 100000) * (t * (t - 1))) \<le> lab_channel (xyz_channel t) - t
       \<and> lab_channel (xyz_channel t) - t \<le> 0"
proof -
  have "1 ^ 3 \<le> t ^ 3"
    using assms by (intro power_mono) simp_all
  then have c: "t ^ 3 > 8856 / 1000000"
    by simp
  from channel_nonlinear [OF c]
  have eq: "lab_channel (xyz_channel t) = t powr (99999 / 100000)"
    by simp
  show ?thesis
    unfolding eq by (rule powr_excess_high [OF assms])
qed

lemma channel_pair_error:
  fixes t y T d B :: real
  assumes y: "y \<le> 1"
    and t: "t \<le> T" "t - y \<le> d"
    and T: "1 \<le> T" "d \<le> 79 / 100"
    and B: "(1 / 100000) * (T * d) + 4 / 10000000000 \<le> B" "471 / 100000000 \<le> B"
  shows "\<bar>(lab_channel (xyz_channel t) - t) - (lab_channel (xyz_channel y) - y)\<bar> \<le> B"
proof (cases "t \<le> 1")
  case True
  show ?thesis
    using channel_error_low [OF True] channel_error_low [OF y] B(2) by linarith
next
  case False
  then have t1: "1 \<le> t" by simp
  have y1: "21 / 100 \<le> y"
    using False t(2) T(2) by linarith
  define P where "P = t * (t - 1)"
  define Q where "Q = T * (t - 1)"
  define R where "R = T * (1 - y)"
  define S where "S = T * d"
  have pq: "P \<le> Q"
    unfolding P_def Q_def using t(1) t1 by (intro mult_right_mono) simp_all
  have "1 * (1 - y) \<le> T * (1 - y)"
    using T(1) y by (intro mult_right_mono) simp_all
  then have r: "1 - y \<le> R"
    by (simp add: R_def)
  have qr: "Q + R \<le> S"
  proof -
    have "Q + R = T * (t - y)"
      by (simp add: Q_def R_def algebra_simps)
    also have "\<dots> \<le> T * d"
      using T(1) t(2) by (intro mult_left_mono) simp_all
    finally show ?thesis by (simp add: S_def)
  qed
  have h: "- ((1 / 100000) * P) \<le> lab_channel (xyz_channel t) - t"
    "lab_channel (xyz_channel t) - t \<le> 0"
    using channel_error_high [OF t1] by (simp_all add: P_def)
  have m: "0 \<le> lab_channel (xyz_channel y) - y"
    "lab_channel (xyz_channel y) - y \<le> (1 / 100000) * (1 - y) + 4 / 10000000000"
    using channel_error_mid [OF y1 y] by simp_all
  have b: "(1 / 100000) * S + 4 / 10000000000 \<le> B"
    using B(1) by (simp add: S_def)
  show ?thesis
    using h m pq r qr b B(2) by argo
qed

lemma luma_error:
  fixes y :: real
  assumes "16 / 116 \<le> y" and "y \<le> 1"
  shows "\<bar>lab_luma (xyz_channel y) - (116 * y - 16)\<bar> \<le> 1 / 1000"
proof (cases "xyz_channel y > 8856 / 1000000")
  case True
  then have "lab_luma (xyz_channel y) = 116 * lab_channel (xyz_channel y) - 16"
    by (simp add: lab_luma_def lab_channel_def)
  then show ?thesis
    using channel_error_low [OF assms(2)] by linarith
next
  case False
  have lin: "xyz_channel y = (y - 16 / 116) / (7787 / 1000)"
  proof (cases "y ^ 3 > 8856 / 1000000")
    case True
    then have "xyz_channel y = y ^ 3" by (simp add: xyz_channel_def)
    with True False show ?thesis by simp
  next
    case False
    then show ?thesis by (simp add: xyz_channel_def)
  qed
  define u where "u = xyz_channel y"
  have u: "0 \<le> u" "u \<le> 8856 / 1000000"
    using False assms by (simp_all add: u_def lin)
  have y: "y = (7787 / 1000) * u + 16 / 116"
    by (simp add: u_def lin field_simps)
  have "lab_luma u = (9033 / 10) * u"
    using u by (simp add: lab_luma_def)
  then have "lab_luma u - (116 * y - 16) = (8 / 1000) * u"
    unfolding y by (simp add: algebra_simps)
  then show ?thesis
    using u unfolding u_def [symmetric] by simp
qed

lemma lab_round_trip_Cons:
  assumes "w0 \<noteq> 0" and "w1 \<noteq> 0" and "w2 \<noteq> 0"
  shows "lab_round_trip [w0, w1, w2] (a # b # c # r) =
     Some (lab_luma (xyz_channel ((100 * a + 16) / 116)) / 100
         # (500 * (lab_channel (xyz_channel ((256 * b - 128) / 500 + (100 * a + 16) / 116))
                   - lab_channel (xyz_channel ((100 * a + 16) / 116))) + 128) / 256
         # (200 * (lab_channel (xyz_channel ((100 * a + 16) / 116))
                   - lab_channel (xyz_channel ((100 * a + 16) / 116 - (256 * c - 128) / 200))) + 128) / 256
         # r)"
  using assms by (simp add: lab_round_trip_def toXYZ_Cons fromXYZ_Cons)

lemma length_3_or_4:
  assumes "length v = 3 \<or> length v = 4"
  obtains a b c r where "v = a # b # c # r" and "length r \<le> 1"
proof -
  from assms obtain a v1 where v: "v = a # v1" by (cases v) auto
  with assms obtain b v2 where v1: "v1 = b # v2" by (cases v1) auto
  with v assms obtain c r where v2: "v2 = c # r" by (cases v2) auto
  from assms have "length r \<le> 1" by (auto simp: v v1 v2)
  with v v1 v2 that show thesis by blast
qed

lemma length_3:
  assumes "length w = 3"
  obtains w0 w1 w2 where "w = [w0, w1, w2]"
proof -
  from assms obtain a v1 where v: "w = a # v1" by (cases w) auto
  with assms obtain b v2 where v1: "v1 = b # v2" by (cases v1) auto
  with v assms obtain c r where v2: "v2 = c # r" by (cases v2) auto
  from assms have "r = []" by (simp add: v v1 v2)
  with v v1 v2 that show thesis by blast
qed

lemma abs_mult_bound:
  fixes D :: real
  assumes "\<bar>D\<bar> \<le> e" and "0 \<le> k" and "k * e \<le> t"
  shows "\<bar>k * D\<bar> \<le> t"
proof -
  have "\<bar>k * D\<bar> = k * \<bar>D\<bar>"
    using assms(2) by (simp add: abs_mult)
  also have "\<dots> \<le> k * e"
    using assms(1,2) by (rule mult_left_mono)
  finally show ?thesis
    using assms(3) by simp
qed

lemma normalized_example: "normalized [5 / 100, 1 / 2, 1 / 2]"
  by (simp add: normalized_def)

lemma illuminant_ok_d65: "illuminant_ok d65"
  by (simp add: illuminant_ok_def d65_def)

lemma lab_round_trip_example:
  "lab_round_trip d65 [5 / 100, 1 / 2, 1 / 2] = Some [45165 / 903292, 1 / 2, 1 / 2]"
proof -
  have x: "xyz_channel (21 / 116) = 1250 / 225823"
    by (simp add: xyz_channel_def power3_eq_cube)
  have l: "lab_luma (1250 / 225823) = 1129125 / 225823"
    by (simp add: lab_luma_def)
  have c: "lab_channel (1250 / 225823) = 21 / 116"
    by (simp add: lab_channel_def)
  show ?thesis
    unfolding d65_def
    by (simp add: lab_round_trip_Cons x l c)
qed

subsection \<open>Printing and reading the CSS text\<close>

lemma toString_Cons:
  "toString (a # b # c # r) opacity =
     Some (''lab'', [Number (a * 100), Number (b * 250 - 125), Number (c * 250 - 125)]
        @ (if opacity \<and> length r = 1 then [Separator CHR ''/'', Number (hd r)] else [])
        @ [CloseParen])"
  by (cases r)
    (simp_all add: toString_def put_value_def printer_text_def Let_def SCALE_UP_def LUMA_SCALE_def
      MIN_CSS_SCALE_def MAX_CSS_SCALE_def)

lemma append_number:
  "append_css_value (Number v # Number v' # rest) out False sep scale
     = (True, Number v' # rest, out @ [v / scale], False)"
  by (simp add: append_css_value_def)

lemma append_number_close:
  "append_css_value (Number v # CloseParen # rest) out False sep scale
     = (True, rest, out @ [v / scale], True)"
  by (simp add: append_css_value_def)

lemma append_number_slash:
  "append_css_value (Number v # Separator CHR ''/'' # Number v' # rest) out False CHR ''/'' scale
     = (True, Number v' # rest, out @ [v / scale], False)"
  by (simp add: append_css_value_def)

lemma append_at_end:
  "append_css_value ss out True sep scale = (False, ss, out, True)"
  by (simp add: append_css_value_def)

lemma parse_three:
  "parse [Number l, Number a, Number b, CloseParen] [] = (True, [], [l / 100, (a / 125 + 1) / 2, (b / 125 + 1) / 2])"
  by (simp add: parse_def append_number append_number_close append_at_end LUMA_SCALE_def MAX_CSS_SCALE_def)

lemma parse_four:
  "parse [Number l, Number a, Number b, Separator CHR ''/'', Number d, CloseParen] []
     = (True, [], [l / 100, (a / 125 + 1) / 2, (b / 125 + 1) / 2, d])"
  by (simp add: parse_def append_number append_number_close append_number_slash append_at_end
      LUMA_SCALE_def MAX_CSS_SCALE_def)

lemma css_scale_range:
  assumes "0 \<le> c" and "c \<le> 1"
  shows "MIN_CSS_SCALE \<le> SCALE_UP c MIN_CSS_SCALE MAX_CSS_SCALE
       \<and> SCALE_UP c MIN_CSS_SCALE MAX_CSS_SCALE \<le> MAX_CSS_SCALE"
  using assms by (simp add: SCALE_UP_def MIN_CSS_SCALE_def MAX_CSS_SCALE_def)

lemma normalized_boundary: "normalized [0, 1, 0, 1]"
  by (simp add: normalized_def)

section \<open>Properties\<close>

text \<open>
  C9: for a space whose component count plus one is representable as an \<open>unsigned int\<close>
  (the component count of every space is 3 or 4), \<open>isValidData\<close> holds exactly of the
  vectors whose size is the component count or the component count plus one.
\<close>

theorem isValidData_iff:
  assumes "unat (getComponentCount this) + 1 < 2 ^ 32"
  shows "isValidData this values \<longleftrightarrow>
           length values = unat (getComponentCount this)
         \<or> length values = unat (getComponentCount this) + 1"
proof -
  have "unat (getComponentCount this + 1) = unat (getComponentCount this) + 1"
    using assms by (rule unat_succ_32)
  then show ?thesis
    by (simp add: isValidData_def Let_def)
qed

theorem isValidData_iff_witness:
  "unat (getComponentCount (plain_space 1 RGB ''RGB'' srgb_profile)) + 1 < 2 ^ 32
   \<and> isValidData (plain_space 1 RGB ''RGB'' srgb_profile) [1, 0, 0]
   \<and> isValidData (plain_space 1 RGB ''RGB'' srgb_profile) [1, 0, 0, 1]
   \<and> \<not> isValidData (plain_space 1 RGB ''RGB'' srgb_profile) [1, 0]
   \<and> \<not> isValidData (plain_space 1 RGB ''RGB'' srgb_profile) [1, 0, 0, 1, 1]"
proof -
  have h: "unat (getComponentCount (plain_space 1 RGB ''RGB'' srgb_profile)) + 1 < 2 ^ 32"
    by (simp add: plain_space_def)
  show ?thesis
    using h isValidData_iff [OF h, of "[1, 0, 0]"] isValidData_iff [OF h, of "[1, 0, 0, 1]"]
      isValidData_iff [OF h, of "[1, 0]"] isValidData_iff [OF h, of "[1, 0, 0, 1, 1]"]
    by (simp add: plain_space_def)
qed

text \<open>
  C8: a space of the type of \<open>s\<close> is registered exactly when \<open>find\<close> by that type is
  not null; then \<open>addSpace\<close> throws a \<open>ColorError\<close>; otherwise it appends \<open>s\<close>, returns
  it, and \<open>find\<close> by the type of \<open>s\<close> in the new registry returns \<open>s\<close>.
\<close>

theorem addSpace_find_Type:
  "(find_Type m (getType s) \<noteq> None \<longleftrightarrow> (\<exists>x \<in> set (m_spaces m). getType x = getType s))
   \<and> (find_Type m (getType s) \<noteq> None \<longrightarrow> (\<exists>msg. addSpace m s = Inl (ColorError msg)))
   \<and> (find_Type m (getType s) = None \<longrightarrow>
        addSpace m s = Inr (s, m\<lparr>m_spaces := m_spaces m @ [s]\<rparr>)
        \<and> find_Type (m\<lparr>m_spaces := m_spaces m @ [s]\<rparr>) (getType s) = Some s)"
proof -
  have "find_Type m (getType s) \<noteq> None \<longleftrightarrow> (\<exists>x \<in> set (m_spaces m). getType x = getType s)"
    by (auto simp: find_Type_def find_None_iff)
  moreover have "find_Type m (getType s) \<noteq> None \<longrightarrow> (\<exists>msg. addSpace m s = Inl (ColorError msg))"
    by (simp add: addSpace_def)
  moreover have "find_Type m (getType s) = None \<longrightarrow>
        addSpace m s = Inr (s, m\<lparr>m_spaces := m_spaces m @ [s]\<rparr>)
        \<and> find_Type (m\<lparr>m_spaces := m_spaces m @ [s]\<rparr>) (getType s) = Some s"
    by (simp add: addSpace_def find_Type_def find_append Let_def)
  ultimately show ?thesis by blast
qed

theorem addSpace_find_Type_witness:
  "find_Type \<lparr>m_spaces = [plain_space 1 RGB ''RGB'' srgb_profile]\<rparr> (getType (plain_space 2 Lab ''Lab'' srgb_profile)) = None
   \<and> find_Type \<lparr>m_spaces = [plain_space 1 RGB ''RGB'' srgb_profile, plain_space 2 Lab ''Lab'' srgb_profile]\<rparr> Lab
       = Some (plain_space 2 Lab ''Lab'' srgb_profile)
   \<and> find_Type \<lparr>m_spaces = [plain_space 1 RGB ''RGB'' srgb_profile]\<rparr> (getType (plain_space 3 RGB ''RGB2'' srgb_profile)) \<noteq> None
   \<and> (\<exists>msg. addSpace \<lparr>m_spaces = [plain_space 1 RGB ''RGB'' srgb_profile]\<rparr> (plain_space 3 RGB ''RGB2'' srgb_profile)
        = Inl (ColorError msg))"
proof -
  have fresh: "find_Type \<lparr>m_spaces = [plain_space 1 RGB ''RGB'' srgb_profile]\<rparr>
      (getType (plain_space 2 Lab ''Lab'' srgb_profile)) = None"
    by (simp add: find_Type_def plain_space_def)
  have dup: "find_Type \<lparr>m_spaces = [plain_space 1 RGB ''RGB'' srgb_profile]\<rparr>
      (getType (plain_space 3 RGB ''RGB2'' srgb_profile)) \<noteq> None"
    by (simp add: find_Type_def plain_space_def)
  have t: "getType (plain_space 2 Lab ''Lab'' srgb_profile) = Lab"
    by (simp add: plain_space_def)
  show ?thesis
    using fresh dup
      addSpace_find_Type [of "\<lparr>m_spaces = [plain_space 1 RGB ''RGB'' srgb_profile]\<rparr>"
        "plain_space 2 Lab ''Lab'' srgb_profile"]
      addSpace_find_Type [of "\<lparr>m_spaces = [plain_space 1 RGB ''RGB'' srgb_profile]\<rparr>"
        "plain_space 3 RGB ''RGB2'' srgb_profile"]
    by (simp add: t)
qed

text \<open>
  C10: when no registered space has the type of \<open>s\<close> and some registered space has
  the name of \<open>s\<close>, \<open>addSpace\<close> accepts \<open>s\<close> and appends it, and \<open>find\<close> by that name
  in the new registry returns the first space in registration order that has the name,
  a space registered before \<open>s\<close> and different from it.
\<close>

theorem addSpace_same_name:
  assumes "find_Type m (getType s) = None"
    and "y \<in> set (m_spaces m)"
    and "getName y = getName s"
  shows "addSpace m s = Inr (s, m\<lparr>m_spaces := m_spaces m @ [s]\<rparr>)
    \<and> (\<exists>i < length (m_spaces m).
          find_name (m\<lparr>m_spaces := m_spaces m @ [s]\<rparr>) (getName s) = Some (m_spaces m ! i)
          \<and> getName (m_spaces m ! i) = getName s
          \<and> (\<forall>j < i. getName (m_spaces m ! j) \<noteq> getName s)
          \<and> m_spaces m ! i \<noteq> s)"
proof -
  have add: "addSpace m s = Inr (s, m\<lparr>m_spaces := m_spaces m @ [s]\<rparr>)"
    using assms(1) by (simp add: addSpace_def Let_def)
  have "List.find (\<lambda>v. getName v = getName s) (m_spaces m) \<noteq> None"
    using assms(2,3) by (auto simp: find_None_iff)
  then obtain x where x: "List.find (\<lambda>v. getName v = getName s) (m_spaces m) = Some x"
    by blast
  then obtain i where i: "i < length (m_spaces m)" "m_spaces m ! i = x"
    "getName x = getName s" "\<forall>j < i. getName (m_spaces m ! j) \<noteq> getName s"
    unfolding find_first_index by blast
  have found: "find_name (m\<lparr>m_spaces := m_spaces m @ [s]\<rparr>) (getName s) = Some (m_spaces m ! i)"
    using x i(2) by (simp add: find_name_def find_append)
  have "m_spaces m ! i \<in> set (m_spaces m)"
    using i(1) by simp
  moreover have "\<forall>z \<in> set (m_spaces m). getType z \<noteq> getType s"
    using assms(1) by (simp add: find_Type_def find_None_iff)
  ultimately have neq: "m_spaces m ! i \<noteq> s" by blast
  from i found neq have "find_name (m\<lparr>m_spaces := m_spaces m @ [s]\<rparr>) (getName s) = Some (m_spaces m ! i)
      \<and> getName (m_spaces m ! i) = getName s
      \<and> (\<forall>j < i. getName (m_spaces m ! j) \<noteq> getName s)
      \<and> m_spaces m ! i \<noteq> s"
    by simp
  with i(1) add show ?thesis by blast
qed

theorem addSpace_same_name_witness:
  "find_Type \<lparr>m_spaces = [plain_space 1 HSL ''other'' srgb_profile, plain_space 2 RGB ''same'' srgb_profile,
       plain_space 3 CMYK ''same'' srgb_profile]\<rparr>
     (getType (plain_space 4 Lab ''same'' srgb_profile)) = None
   \<and> plain_space 3 CMYK ''same'' srgb_profile
       \<in> set (m_spaces \<lparr>m_spaces = [plain_space 1 HSL ''other'' srgb_profile,
            plain_space 2 RGB ''same'' srgb_profile, plain_space 3 CMYK ''same'' srgb_profile]\<rparr>)
   \<and> getName (plain_space 3 CMYK ''same'' srgb_profile) = getName (plain_space 4 Lab ''same'' srgb_profile)
   \<and> find_name \<lparr>m_spaces = [plain_space 1 HSL ''other'' srgb_profile, plain_space 2 RGB ''same'' srgb_profile,
         plain_space 3 CMYK ''same'' srgb_profile, plain_space 4 Lab ''same'' srgb_profile]\<rparr> ''same''
       = Some (plain_space 2 RGB ''same'' srgb_profile)"
proof -
  have h1: "find_Type \<lparr>m_spaces = [plain_space 1 HSL ''other'' srgb_profile, plain_space 2 RGB ''same'' srgb_profile,
       plain_space 3 CMYK ''same'' srgb_profile]\<rparr>
     (getType (plain_space 4 Lab ''same'' srgb_profile)) = None"
    by (simp add: find_Type_def plain_space_def)
  have h2: "plain_space 3 CMYK ''same'' srgb_profile
       \<in> set (m_spaces \<lparr>m_spaces = [plain_space 1 HSL ''other'' srgb_profile,
            plain_space 2 RGB ''same'' srgb_profile, plain_space 3 CMYK ''same'' srgb_profile]\<rparr>)"
    by simp
  have h3: "getName (plain_space 3 CMYK ''same'' srgb_profile) = getName (plain_space 4 Lab ''same'' srgb_profile)"
    by (simp add: plain_space_def)
  show ?thesis
    using h1 h2 h3 addSpace_same_name [OF h1 h2 h3]
    by (simp add: find_name_def plain_space_def)
qed

text \<open>
  C4: between spaces whose profiles differ, \<open>profileToProfile\<close> uses the intent chosen in
  the order source, destination, Perceptual: the cache is looked up at the checksum of
  the destination profile followed by the tag of that intent; on a miss the factory is
  called once, with that intent, and its result stored under that key; on a hit the
  factory is not called and the space is unchanged; the result is that of the cached
  transform, or false for a null entry.
\<close>

theorem profileToProfile_intent:
  assumes "\<not> profile_eq cms (getProfile to_space) (getProfile this)"
  shows "(let intent = spec_intent this to_space;
              key = getChecksum (getProfile to_space) @ intentIds cms intent;
              r = profileToProfile cms this io to_space;
              this' = fst (snd (snd r));
              made = snd (snd (snd r))
          in (transforms this key = None \<longrightarrow>
                made = [(getProfile this, getProfile to_space, intent)]
                \<and> transforms this' =
                    (transforms this)(key \<mapsto> create_for_cms cms (getProfile this) (getProfile to_space) intent))
           \<and> (transforms this key \<noteq> None \<longrightarrow> made = [] \<and> this' = this)
           \<and> (fst r, fst (snd r)) =
                (case transforms this' key of
                   Some (Some tr) \<Rightarrow> do_transform tr io
                 | _ \<Rightarrow> (False, io)))"
proof -
  define key where "key = getChecksum (getProfile to_space) @ intentIds cms (spec_intent this to_space)"
  show ?thesis
  proof (cases "transforms this key")
    case None
    then show ?thesis
      by (cases "create_for_cms cms (getProfile this) (getProfile to_space) (spec_intent this to_space)")
        (simp_all add: profileToProfile_other [OF assms] key_def [symmetric] Let_def)
  next
    case (Some a)
    then show ?thesis
      by (cases a) (simp_all add: profileToProfile_other [OF assms] key_def [symmetric] Let_def)
  qed
qed

theorem profileToProfile_intent_witness:
  "\<not> profile_eq no_transform_cms
       (getProfile ((plain_space 2 CMYK ''Print'' print_profile)\<lparr>getIntent := RELATIVE_COLORIMETRIC\<rparr>))
       (getProfile (plain_space 1 RGB ''RGB'' srgb_profile))
   \<and> snd (snd (snd (profileToProfile no_transform_cms (plain_space 1 RGB ''RGB'' srgb_profile) [1, 0, 0]
          ((plain_space 2 CMYK ''Print'' print_profile)\<lparr>getIntent := RELATIVE_COLORIMETRIC\<rparr>))))
       = [(srgb_profile, print_profile, RELATIVE_COLORIMETRIC)]"
proof -
  have h: "\<not> profile_eq no_transform_cms
       (getProfile ((plain_space 2 CMYK ''Print'' print_profile)\<lparr>getIntent := RELATIVE_COLORIMETRIC\<rparr>))
       (getProfile (plain_space 1 RGB ''RGB'' srgb_profile))"
    by (simp add: fixture_defs)
  show ?thesis
    using h profileToProfile_intent [OF h, of "[1, 0, 0]"]
    by (simp add: Let_def spec_intent_def plain_space_def)
qed

text \<open>
  C5: if the first call with key \<open>k\<close> misses the cache and the factory returns null, the
  call returns false, leaves \<open>io\<close> alone, stores null under \<open>k\<close> and has called the
  factory once; after any further calls on this space the entry is still null, and every
  call with key \<open>k\<close> returns false, changes nothing and does not call the factory.
\<close>

theorem negative_caching:
  assumes "cache_key cms this to_space = Some k"
    and "transforms this k = None"
    and "create_for_cms cms (getProfile this) (getProfile to_space) (spec_intent this to_space) = None"
  shows "profileToProfile cms this io to_space =
           (False, io, this\<lparr>transforms := (transforms this)(k \<mapsto> None)\<rparr>,
            [(getProfile this, getProfile to_space, spec_intent this to_space)])
    \<and> (\<forall>calls io2 to2.
          cache_key cms this to2 = Some k \<longrightarrow>
          (let this2 = after_calls cms (this\<lparr>transforms := (transforms this)(k \<mapsto> None)\<rparr>) calls
           in transforms this2 k = Some None
            \<and> profileToProfile cms this2 io2 to2 = (False, io2, this2, [])))"
proof -
  define this1 where "this1 = this\<lparr>transforms := (transforms this)(k \<mapsto> None)\<rparr>"
  from assms(1) have ne: "\<not> profile_eq cms (getProfile to_space) (getProfile this)"
    and k: "k = getChecksum (getProfile to_space) @ intentIds cms (spec_intent this to_space)"
    by (simp_all add: cache_key_Some)
  have first: "profileToProfile cms this io to_space =
      (False, io, this1, [(getProfile this, getProfile to_space, spec_intent this to_space)])"
    using assms(2,3) by (simp add: profileToProfile_other [OF ne] k [symmetric] this1_def)
  have later: "transforms (after_calls cms this1 calls) k = Some None
      \<and> profileToProfile cms (after_calls cms this1 calls) io2 to2 =
          (False, io2, after_calls cms this1 calls, [])"
    if "cache_key cms this to2 = Some k" for calls io2 to2
  proof -
    have e: "transforms (after_calls cms this1 calls) k = Some None"
      by (rule after_calls_keeps) (simp add: this1_def)
    have "cache_key cms this1 to2 = cache_key cms this to2"
      by (simp add: cache_key_def spec_intent_def this1_def)
    with that have "cache_key cms (after_calls cms this1 calls) to2 = Some k"
      by (simp add: cache_key_after_calls)
    then show ?thesis
      using e by (simp add: profileToProfile_null_entry)
  qed
  show ?thesis
    using first later unfolding this1_def Let_def by blast
qed

theorem negative_caching_witness:
  "cache_key no_transform_cms (plain_space 1 RGB ''RGB'' srgb_profile)
       (plain_space 2 CMYK ''Print'' print_profile) = Some ''bbp''
   \<and> transforms (plain_space 1 RGB ''RGB'' srgb_profile) ''bbp'' = None
   \<and> create_for_cms no_transform_cms srgb_profile print_profile PERCEPTUAL = None
   \<and> profileToProfile no_transform_cms (plain_space 1 RGB ''RGB'' srgb_profile) [1, 0, 0]
        (plain_space 2 CMYK ''Print'' print_profile)
      = (False, [1, 0, 0],
         (plain_space 1 RGB ''RGB'' srgb_profile)\<lparr>transforms := [''bbp'' \<mapsto> None]\<rparr>,
         [(srgb_profile, print_profile, PERCEPTUAL)])
   \<and> fst (profileToProfile no_transform_cms
        (after_calls no_transform_cms
           ((plain_space 1 RGB ''RGB'' srgb_profile)\<lparr>transforms := [''bbp'' \<mapsto> None]\<rparr>)
           [([0, 1, 0], plain_space 2 CMYK ''Print'' print_profile)])
        [0, 0, 1] (plain_space 2 CMYK ''Print'' print_profile)) = False"
proof -
  have h1: "cache_key no_transform_cms (plain_space 1 RGB ''RGB'' srgb_profile)
       (plain_space 2 CMYK ''Print'' print_profile) = Some ''bbp''"
    by (simp add: cache_key_def spec_intent_def fixture_defs)
  have h2: "transforms (plain_space 1 RGB ''RGB'' srgb_profile) ''bbp'' = None"
    by (simp add: plain_space_def)
  have h3: "create_for_cms no_transform_cms (getProfile (plain_space 1 RGB ''RGB'' srgb_profile))
      (getProfile (plain_space 2 CMYK ''Print'' print_profile))
      (spec_intent (plain_space 1 RGB ''RGB'' srgb_profile) (plain_space 2 CMYK ''Print'' print_profile)) = None"
    by (simp add: no_transform_cms_def)
  have p: "getProfile (plain_space 1 RGB ''RGB'' srgb_profile) = srgb_profile"
    "getProfile (plain_space 2 CMYK ''Print'' print_profile) = print_profile"
    "spec_intent (plain_space 1 RGB ''RGB'' srgb_profile) (plain_space 2 CMYK ''Print'' print_profile) = PERCEPTUAL"
    "transforms (plain_space 1 RGB ''RGB'' srgb_profile) = Map.empty"
    by (simp_all add: plain_space_def spec_intent_def)
  have c: "create_for_cms no_transform_cms srgb_profile print_profile PERCEPTUAL = None"
    by (simp add: no_transform_cms_def)
  from negative_caching [OF h1 h2 h3, of "[1, 0, 0]"]
  have first: "profileToProfile no_transform_cms (plain_space 1 RGB ''RGB'' srgb_profile) [1, 0, 0]
        (plain_space 2 CMYK ''Print'' print_profile)
      = (False, [1, 0, 0],
         (plain_space 1 RGB ''RGB'' srgb_profile)\<lparr>transforms := [''bbp'' \<mapsto> None]\<rparr>,
         [(srgb_profile, print_profile, PERCEPTUAL)])"
    and later: "\<And>calls io2 to2. cache_key no_transform_cms (plain_space 1 RGB ''RGB'' srgb_profile) to2 = Some ''bbp'' \<Longrightarrow>
       profileToProfile no_transform_cms
        (after_calls no_transform_cms
           ((plain_space 1 RGB ''RGB'' srgb_profile)\<lparr>transforms := [''bbp'' \<mapsto> None]\<rparr>) calls) io2 to2
       = (False, io2, after_calls no_transform_cms
           ((plain_space 1 RGB ''RGB'' srgb_profile)\<lparr>transforms := [''bbp'' \<mapsto> None]\<rparr>) calls, [])"
    unfolding p Let_def by blast+
  show ?thesis
    using h1 h2 c first later [OF h1, of "[([0, 1, 0], plain_space 2 CMYK ''Print'' print_profile)]" "[0, 0, 1]"]
    by simp
qed

text \<open>
  C6: between spaces whose profiles compare equal, stage 2 returns true at once, with
  the vector, the cache and the factory untouched, and \<open>convert\<close> is the source's
  \<open>spaceToProfile\<close> followed by the destination's \<open>profileToSpace\<close>, returning true.
\<close>

theorem convert_same_profile:
  assumes "profile_eq cms (getProfile to_space) (getProfile this)"
  shows "profileToProfile cms this io to_space = (True, io, this, [])
    \<and> convert cms this io to_space =
        (True, profileToSpace to_space (spaceToProfile this io), this, [])"
  using assms by (simp add: convert_def profileToProfile_same)

theorem convert_same_profile_witness:
  "profile_eq no_transform_cms (getProfile (plain_space 2 Lab ''Lab'' srgb_profile))
       (getProfile (percent_space 1 RGB ''RGB'' srgb_profile))
   \<and> convert no_transform_cms (percent_space 1 RGB ''RGB'' srgb_profile) [100, 0, 50]
        (plain_space 2 Lab ''Lab'' srgb_profile)
      = (True, [1, 0, 1 / 2], percent_space 1 RGB ''RGB'' srgb_profile, [])"
proof -
  have h: "profile_eq no_transform_cms (getProfile (plain_space 2 Lab ''Lab'' srgb_profile))
       (getProfile (percent_space 1 RGB ''RGB'' srgb_profile))"
    by (simp add: fixture_defs)
  show ?thesis
    using h convert_same_profile [OF h, of "[100, 0, 50]"]
    by (simp add: plain_space_def percent_space_def)
qed

text \<open>
  C7: between spaces whose profiles compare equal, \<open>outOfGamut\<close> returns false for every
  input vector, without building a gamut checker.
\<close>

theorem outOfGamut_same_profile:
  assumes "profile_eq cms (getProfile to_space) (getProfile this)"
  shows "outOfGamut cms this input to_space = Inr (False, this, [])"
  using assms by (simp add: outOfGamut_def)

theorem outOfGamut_same_profile_witness:
  "profile_eq no_transform_cms (getProfile (plain_space 2 Lab ''Lab'' srgb_profile))
       (getProfile (plain_space 1 RGB ''RGB'' srgb_profile))
   \<and> outOfGamut no_transform_cms (plain_space 1 RGB ''RGB'' srgb_profile) [2, - 1, 0]
        (plain_space 2 Lab ''Lab'' srgb_profile)
      = Inr (False, plain_space 1 RGB ''RGB'' srgb_profile, [])"
proof -
  have h: "profile_eq no_transform_cms (getProfile (plain_space 2 Lab ''Lab'' srgb_profile))
       (getProfile (plain_space 1 RGB ''RGB'' srgb_profile))"
    by (simp add: fixture_defs)
  show ?thesis
    using h outOfGamut_same_profile [OF h, of "[2, - 1, 0]"] by simp
qed

text \<open>
  C1 (amended): when stage 2 of \<open>convert\<close> fails, \<open>convert\<close> returns false and \<open>io\<close> holds
  the source space's \<open>profileToSpace\<close> applied to what stage 2 left in \<open>io\<close>. When the
  failure is a transform that could not be constructed (the cache entry of the call's key
  is null), stage 2 left the stage-1 output there, so \<open>io\<close> holds the source space's
  \<open>profileToSpace\<close> applied to its \<open>spaceToProfile\<close> of the input.
\<close>

theorem convert_failure:
  assumes "profileToProfile cms this (spaceToProfile this io) to_space = (False, io2, this', made)"
  shows "convert cms this io to_space = (False, profileToSpace this io2, this', made)
    \<and> ((\<exists>k. cache_key cms this to_space = Some k \<and> transforms this' k = Some None)
          \<longrightarrow> io2 = spaceToProfile this io
            \<and> convert cms this io to_space =
                (False, profileToSpace this (spaceToProfile this io), this', made))"
proof -
  have "profileToSpace this' = profileToSpace this"
    using profileToProfile_fixed [of cms this "spaceToProfile this io" to_space] assms by simp
  then have c: "convert cms this io to_space = (False, profileToSpace this io2, this', made)"
    using assms by (simp add: convert_def)
  have "io2 = spaceToProfile this io"
    if "cache_key cms this to_space = Some k" and n: "transforms this' k = Some None" for k
  proof -
    from that(1) have ne: "\<not> profile_eq cms (getProfile to_space) (getProfile this)"
      and k: "k = getChecksum (getProfile to_space) @ intentIds cms (spec_intent this to_space)"
      by (simp_all add: cache_key_Some)
    show ?thesis
    proof (cases "transforms this k")
      case None
      then show ?thesis
        using assms n
        by (cases "create_for_cms cms (getProfile this) (getProfile to_space) (spec_intent this to_space)")
          (auto simp: profileToProfile_other [OF ne] k [symmetric])
    next
      case (Some a)
      then show ?thesis
        using assms n by (cases a) (auto simp: profileToProfile_other [OF ne] k [symmetric])
    qed
  qed
  with c show ?thesis by auto
qed

theorem convert_failure_witness:
  "profileToProfile no_transform_cms (percent_space 1 RGB ''RGB'' srgb_profile)
      (spaceToProfile (percent_space 1 RGB ''RGB'' srgb_profile) [50, 0, 0])
      (plain_space 2 CMYK ''Print'' print_profile)
     = (False, [1 / 2, 0, 0],
        (percent_space 1 RGB ''RGB'' srgb_profile)\<lparr>transforms := [''bbp'' \<mapsto> None]\<rparr>,
        [(srgb_profile, print_profile, PERCEPTUAL)])
   \<and> cache_key no_transform_cms (percent_space 1 RGB ''RGB'' srgb_profile)
       (plain_space 2 CMYK ''Print'' print_profile) = Some ''bbp''
   \<and> convert no_transform_cms (percent_space 1 RGB ''RGB'' srgb_profile) [50, 0, 0]
        (plain_space 2 CMYK ''Print'' print_profile)
     = (False, [50, 0, 0],
        (percent_space 1 RGB ''RGB'' srgb_profile)\<lparr>transforms := [''bbp'' \<mapsto> None]\<rparr>,
        [(srgb_profile, print_profile, PERCEPTUAL)])"
proof -
  have h: "profileToProfile no_transform_cms (percent_space 1 RGB ''RGB'' srgb_profile)
      (spaceToProfile (percent_space 1 RGB ''RGB'' srgb_profile) [50, 0, 0])
      (plain_space 2 CMYK ''Print'' print_profile)
     = (False, [1 / 2, 0, 0],
        (percent_space 1 RGB ''RGB'' srgb_profile)\<lparr>transforms := [''bbp'' \<mapsto> None]\<rparr>,
        [(srgb_profile, print_profile, PERCEPTUAL)])"
    by (simp add: profileToProfile_def Let_def fixture_defs)
  have k: "cache_key no_transform_cms (percent_space 1 RGB ''RGB'' srgb_profile)
       (plain_space 2 CMYK ''Print'' print_profile) = Some ''bbp''"
    by (simp add: cache_key_def spec_intent_def fixture_defs)
  show ?thesis
    using h k convert_failure [OF h]
    by (simp add: percent_space_def plain_space_def)
qed

text \<open>
  C1 as stated fails when the transform exists and \<open>do_transform\<close> reports a failure
  after writing to the vector: \<open>convert\<close> decodes what the transform wrote, not the
  stage-1 output.
\<close>

theorem convert_apply_failure_counterexample:
  "fst (profileToProfile failing_cms (percent_space 1 RGB ''RGB'' srgb_profile)
          (spaceToProfile (percent_space 1 RGB ''RGB'' srgb_profile) [50, 0, 0])
          (plain_space 2 CMYK ''Print'' print_profile)) = False
   \<and> fst (convert failing_cms (percent_space 1 RGB ''RGB'' srgb_profile) [50, 0, 0]
          (plain_space 2 CMYK ''Print'' print_profile)) = False
   \<and> fst (snd (convert failing_cms (percent_space 1 RGB ''RGB'' srgb_profile) [50, 0, 0]
          (plain_space 2 CMYK ''Print'' print_profile))) = [0, 0, 0]
   \<and> profileToSpace (percent_space 1 RGB ''RGB'' srgb_profile)
         (spaceToProfile (percent_space 1 RGB ''RGB'' srgb_profile) [50, 0, 0]) = [50, 0, 0]"
  by (simp add: convert_def profileToProfile_def Let_def fixture_defs)

text \<open>
  C2 (amended): in exact real arithmetic, for every normalised Lab vector \<open>v\<close> (three
  channels in \<open>[0,1]\<close>, with or without opacity) and every illuminant table without a
  zero, \<open>Lab::fromXYZ\<close> after \<open>Lab::toXYZ\<close> returns a vector of the same length
  that is equal to \<open>v\<close> within \<open>1e-5\<close> in every channel.
\<close>

theorem lab_round_trip_close:
  assumes "normalized v" and "illuminant_ok w"
  shows "\<exists>out. lab_round_trip w v = Some out \<and> length out = length v
           \<and> (\<forall>i < length v. \<bar>out ! i - v ! i\<bar> \<le> 1 / 100000)"
proof -
  from assms(1) have len: "length v = 3 \<or> length v = 4"
    and rng: "list_all (\<lambda>c. 0 \<le> c \<and> c \<le> 1) v"
    by (simp_all add: normalized_def)
  from len obtain a b c r where v: "v = a # b # c # r"
    by (rule length_3_or_4)
  from assms(2) have "length w = 3" and nz: "list_all (\<lambda>c. c \<noteq> 0) w"
    by (simp_all add: illuminant_ok_def)
  then obtain w0 w1 w2 where w: "w = [w0, w1, w2]"
    by (auto elim: length_3)
  from nz have w_nz: "w0 \<noteq> 0" "w1 \<noteq> 0" "w2 \<noteq> 0"
    by (simp_all add: w)
  from rng have ab: "0 \<le> a" "a \<le> 1" "0 \<le> b" "b \<le> 1" "0 \<le> c" "c \<le> 1"
    by (simp_all add: v)
  define y where "y = (100 * a + 16) / 116"
  define x where "x = (256 * b - 128) / 500 + y"
  define z where "z = y - (256 * c - 128) / 200"
  define l' where "l' = lab_luma (xyz_channel y)"
  define x' where "x' = lab_channel (xyz_channel x)"
  define y' where "y' = lab_channel (xyz_channel y)"
  define z' where "z' = lab_channel (xyz_channel z)"
  define out where "out = l' / 100 # (500 * (x' - y') + 128) / 256 # (200 * (y' - z') + 128) / 256 # r"
  have rt: "lab_round_trip w v = Some out"
    unfolding w v out_def l'_def x'_def y'_def z'_def x_def z_def y_def
    by (rule lab_round_trip_Cons [OF w_nz])
  have y_rng: "16 / 116 \<le> y" "y \<le> 1"
    using ab by (simp_all add: y_def)
  have x_rng: "x \<le> 1256 / 1000" "x - y \<le> 256 / 1000"
    using ab y_rng by (simp_all add: x_def field_simps)
  have z_rng: "z \<le> 164 / 100" "z - y \<le> 64 / 100"
    using ab y_rng by (simp_all add: z_def field_simps)
  have dl: "\<bar>l' - (116 * y - 16)\<bar> \<le> 1 / 1000"
    unfolding l'_def using y_rng by (rule luma_error)
  have dxy: "\<bar>(x' - x) - (y' - y)\<bar> \<le> 512 / 100000000"
    unfolding x'_def y'_def
    using y_rng(2) x_rng by (rule channel_pair_error) simp_all
  have "\<bar>(z' - z) - (y' - y)\<bar> \<le> 128 / 10000000"
    unfolding z'_def y'_def
    using y_rng(2) z_rng by (rule channel_pair_error) simp_all
  then have dyz: "\<bar>(y' - y) - (z' - z)\<bar> \<le> 128 / 10000000"
    by (simp only: abs_minus_commute)
  have a_eq: "a = (116 * y - 16) / 100"
    by (simp add: y_def field_simps)
  have b_eq: "b = (500 * (x - y) + 128) / 256"
    by (simp add: x_def field_simps)
  have c_eq: "c = (200 * (y - z) + 128) / 256"
    by (simp add: z_def field_simps)
  have eq0: "l' / 100 - a = (1 / 100) * (l' - (116 * y - 16))"
    unfolding a_eq by (simp add: field_simps)
  have e0: "\<bar>l' / 100 - a\<bar> \<le> 1 / 100000"
    unfolding eq0 using dl by (rule abs_mult_bound) simp_all
  have eq1: "(500 * (x' - y') + 128) / 256 - b = (500 / 256) * ((x' - x) - (y' - y))"
    unfolding b_eq by (simp add: field_simps)
  have e1: "\<bar>(500 * (x' - y') + 128) / 256 - b\<bar> \<le> 1 / 100000"
    unfolding eq1 using dxy by (rule abs_mult_bound) simp_all
  have eq2: "(200 * (y' - z') + 128) / 256 - c = (200 / 256) * ((y' - y) - (z' - z))"
    unfolding c_eq by (simp add: field_simps)
  have e2: "\<bar>(200 * (y' - z') + 128) / 256 - c\<bar> \<le> 1 / 100000"
    unfolding eq2 using dyz by (rule abs_mult_bound) simp_all
  have "\<bar>out ! i - v ! i\<bar> \<le> 1 / 100000" if "i < length v" for i
  proof -
    consider "i = 0" | "i = 1" | "i = 2" | j where "i = Suc (Suc (Suc j))"
      by (metis One_nat_def Suc_1 not0_implies_Suc)
    then show ?thesis
      using e0 e1 e2 by cases (simp_all add: out_def v)
  qed
  moreover have "length out = length v"
    by (simp add: out_def v)
  ultimately show ?thesis
    using rt by blast
qed

theorem lab_round_trip_close_witness:
  "normalized [5 / 100, 1 / 2, 1 / 2] \<and> illuminant_ok d65
   \<and> (\<exists>out. lab_round_trip d65 [5 / 100, 1 / 2, 1 / 2] = Some out
        \<and> \<bar>out ! 0 - 5 / 100\<bar> \<le> 1 / 100000)"
proof -
  from lab_round_trip_close [OF normalized_example illuminant_ok_d65]
  obtain out where "lab_round_trip d65 [5 / 100, 1 / 2, 1 / 2] = Some out"
    and "\<forall>i < length [5 / 100, 1 / 2, 1 / 2 :: real]. \<bar>out ! i - [5 / 100, 1 / 2, 1 / 2] ! i\<bar> \<le> 1 / 100000"
    by blast
  then have "lab_round_trip d65 [5 / 100, 1 / 2, 1 / 2] = Some out \<and> \<bar>out ! 0 - 5 / 100\<bar> \<le> 1 / 100000"
    by force
  with normalized_example illuminant_ok_d65 show ?thesis by blast
qed

text \<open>
  C2 as stated, with the tolerance \<open>1e-9\<close>, fails: the linear branches use 7.787 on
  the way out and 903.3 on the way back, and \<open>116 * 7.787 = 903.292\<close>. The lightness
  0.05 comes back as \<open>45165 / 903292\<close>, which is off by more than \<open>4e-7\<close>.
\<close>

theorem lab_round_trip_counterexample:
  "normalized [5 / 100, 1 / 2, 1 / 2] \<and> illuminant_ok d65
   \<and> lab_round_trip d65 [5 / 100, 1 / 2, 1 / 2] = Some [45165 / 903292, 1 / 2, 1 / 2]
   \<and> \<not> \<bar>[45165 / 903292, 1 / 2, 1 / 2] ! 0 - [5 / 100, 1 / 2, 1 / 2 :: real] ! 0\<bar> \<le> 1 / 1000000000"
  using normalized_example illuminant_ok_d65 lab_round_trip_example by simp

text \<open>
  C3: for every normalised Lab vector \<open>v\<close>, with or without opacity, \<open>Lab::toString\<close>
  yields a \<open>lab(...)\<close> text that \<open>Lab::Parser::parse\<close> reads successfully and to the
  end, giving back \<open>v\<close> (the three channels when the opacity is not printed); the
  two chroma values of the text are \<open>SCALE_UP\<close> onto the CSS range and lie in
  \<open>[-125,125]\<close>.
\<close>

theorem lab_css_round_trip:
  assumes "normalized v"
  shows "\<exists>body body'.
           toString v True = Some (''lab'', body) \<and> parse body [] = (True, [], v)
         \<and> toString v False = Some (''lab'', body') \<and> parse body' [] = (True, [], take 3 v)
         \<and> body ! 1 = Number (SCALE_UP (v ! 1) MIN_CSS_SCALE MAX_CSS_SCALE)
         \<and> body ! 2 = Number (SCALE_UP (v ! 2) MIN_CSS_SCALE MAX_CSS_SCALE)
         \<and> MIN_CSS_SCALE \<le> SCALE_UP (v ! 1) MIN_CSS_SCALE MAX_CSS_SCALE
         \<and> SCALE_UP (v ! 1) MIN_CSS_SCALE MAX_CSS_SCALE \<le> MAX_CSS_SCALE
         \<and> MIN_CSS_SCALE \<le> SCALE_UP (v ! 2) MIN_CSS_SCALE MAX_CSS_SCALE
         \<and> SCALE_UP (v ! 2) MIN_CSS_SCALE MAX_CSS_SCALE \<le> MAX_CSS_SCALE"
proof -
  from assms have len: "length v = 3 \<or> length v = 4"
    and rng: "list_all (\<lambda>c. 0 \<le> c \<and> c \<le> 1) v"
    by (simp_all add: normalized_def)
  from len obtain a b c r where v: "v = a # b # c # r" and r: "length r \<le> 1"
    by (rule length_3_or_4)
  from rng have bc: "0 \<le> b" "b \<le> 1" "0 \<le> c" "c \<le> 1"
    by (simp_all add: v)
  have s1: "MIN_CSS_SCALE \<le> SCALE_UP (v ! 1) MIN_CSS_SCALE MAX_CSS_SCALE
       \<and> SCALE_UP (v ! 1) MIN_CSS_SCALE MAX_CSS_SCALE \<le> MAX_CSS_SCALE"
    using bc by (simp add: v css_scale_range)
  have s2: "MIN_CSS_SCALE \<le> SCALE_UP (v ! 2) MIN_CSS_SCALE MAX_CSS_SCALE
       \<and> SCALE_UP (v ! 2) MIN_CSS_SCALE MAX_CSS_SCALE \<le> MAX_CSS_SCALE"
    using bc by (simp add: v css_scale_range)
  define body' where "body' = [Number (a * 100), Number (b * 250 - 125), Number (c * 250 - 125), CloseParen]"
  have t': "toString v False = Some (''lab'', body')"
    by (simp add: v toString_Cons body'_def)
  have p': "parse body' [] = (True, [], take 3 v)"
    by (simp add: v body'_def parse_three field_simps)
  show ?thesis
  proof (cases r)
    case Nil
    have "toString v True = Some (''lab'', body')"
      by (simp add: v Nil toString_Cons body'_def)
    moreover have "parse body' [] = (True, [], v)"
      by (simp add: v Nil body'_def parse_three field_simps)
    moreover have "body' ! 1 = Number (SCALE_UP (v ! 1) MIN_CSS_SCALE MAX_CSS_SCALE)"
      "body' ! 2 = Number (SCALE_UP (v ! 2) MIN_CSS_SCALE MAX_CSS_SCALE)"
      by (simp_all add: v body'_def SCALE_UP_def MIN_CSS_SCALE_def MAX_CSS_SCALE_def)
    ultimately show ?thesis
      using t' p' s1 s2 by blast
  next
    case (Cons d r')
    with r have r': "r = [d]" by simp
    define body where "body = [Number (a * 100), Number (b * 250 - 125), Number (c * 250 - 125),
      Separator CHR ''/'', Number d, CloseParen]"
    have "toString v True = Some (''lab'', body)"
      by (simp add: v r' toString_Cons body_def)
    moreover have "parse body [] = (True, [], v)"
      by (simp add: v r' body_def parse_four field_simps)
    moreover have "body ! 1 = Number (SCALE_UP (v ! 1) MIN_CSS_SCALE MAX_CSS_SCALE)"
      "body ! 2 = Number (SCALE_UP (v ! 2) MIN_CSS_SCALE MAX_CSS_SCALE)"
      by (simp_all add: v body_def SCALE_UP_def MIN_CSS_SCALE_def MAX_CSS_SCALE_def)
    ultimately show ?thesis
      using t' p' s1 s2 by blast
  qed
qed

theorem lab_css_round_trip_witness:
  "normalized [0, 1, 0, 1]
   \<and> toString [0, 1, 0, 1] True
       = Some (''lab'', [Number 0, Number 125, Number (- 125), Separator CHR ''/'', Number 1, CloseParen])
   \<and> parse [Number 0, Number 125, Number (- 125), Separator CHR ''/'', Number 1, CloseParen] []
       = (True, [], [0, 1, 0, 1])"
proof -
  from lab_css_round_trip [OF normalized_boundary]
  obtain body where b: "toString [0, 1, 0, 1] True = Some (''lab'', body)"
    and p: "parse body [] = (True, [], [0, 1, 0, 1])"
    by blast
  have "toString [0, 1, 0, 1] True
       = Some (''lab'', [Number 0, Number 125, Number (- 125), Separator CHR ''/'', Number 1, CloseParen])"
    by (simp add: toString_Cons)
  with b p normalized_boundary show ?thesis by simp
qed

end
